theory Spec2Isabelle
  imports Main "HOL-Library.AList" "HOL-Library.Sublist"
begin

section \<open>JavaScript values\<close>

text \<open>
  Tool arguments, request payloads and response bodies are JSON-shaped JavaScript values.
  Numbers are the integers of magnitude below \<open>10^21\<close>, which \<open>String\<close> prints in full;
  an object is the list of its properties in insertion order, read with \<open>map_of\<close> (the
  first binding of a key is the property).
\<close>

datatype jsval =
    JUndefined
  | JNull
  | JBool bool
  | JNum int
  | JStr string
  | JArr "jsval list"
  | JObj "(string \<times> jsval) list"

type_synonym jsobj = "(string \<times> jsval) list"

text \<open>Truthiness, as tested by \<open>if (v)\<close>, \<open>!v\<close>, \<open>a || b\<close> and \<open>a && b\<close>.\<close>

fun truthy :: "jsval \<Rightarrow> bool" where
  "truthy JUndefined = False"
| "truthy JNull = False"
| "truthy (JBool b) = b"
| "truthy (JNum n) = (n \<noteq> 0)"
| "truthy (JStr s) = (s \<noteq> [])"
| "truthy (JArr xs) = True"
| "truthy (JObj ps) = True"

definition js_or :: "jsval \<Rightarrow> jsval \<Rightarrow> jsval" where
  "js_or a b = (if truthy a then a else b)"

definition digit :: "nat \<Rightarrow> char" where
  "digit d = ''0123456789'' ! d"

fun string_of_nat :: "nat \<Rightarrow> string" where
  "string_of_nat n =
     (if n < 10 then [digit n] else string_of_nat (n div 10) @ [digit (n mod 10)])"

declare string_of_nat.simps [simp del]

definition string_of_int :: "int \<Rightarrow> string" where
  "string_of_int i =
     (if i < 0 then ''-'' @ string_of_nat (nat (- i)) else string_of_nat (nat i))"

fun join_with :: "string \<Rightarrow> string list \<Rightarrow> string" where
  "join_with sep [] = []"
| "join_with sep [x] = x"
| "join_with sep (x # y # ys) = x @ sep @ join_with sep (y # ys)"

text \<open>
  \<open>String(v)\<close>, which is also what a template literal \<open>`${v}`\<close> inserts. An array is
  its elements joined by commas, with \<open>undefined\<close> and \<open>null\<close> elements left empty.
\<close>

fun to_string :: "jsval \<Rightarrow> string" where
  "to_string JUndefined = ''undefined''"
| "to_string JNull = ''null''"
| "to_string (JBool b) = (if b then ''true'' else ''false'')"
| "to_string (JNum n) = string_of_int n"
| "to_string (JStr s) = s"
| "to_string (JArr xs) =
     join_with '',''
       (map (\<lambda>x. if x = JUndefined \<or> x = JNull then [] else to_string x) xs)"
| "to_string (JObj ps) = ''[object Object]''"

text \<open>\<open>xs.join(sep)\<close> on an array.\<close>

definition array_join :: "string \<Rightarrow> jsval list \<Rightarrow> string" where
  "array_join sep xs =
     join_with sep
       (map (\<lambda>x. if x = JUndefined \<or> x = JNull then [] else to_string x) xs)"

text \<open>\<open>o.k\<close> on an object literal or argument object.\<close>

definition obj_get :: "jsobj \<Rightarrow> string \<Rightarrow> jsval" where
  "obj_get ps k = (case map_of ps k of None \<Rightarrow> JUndefined | Some v \<Rightarrow> v)"

text \<open>
  \<open>v.k\<close> on a value that is neither \<open>undefined\<close> nor \<open>null\<close>, for the property names the
  adapter reads (identifiers, never array indices).
\<close>

fun val_get :: "jsval \<Rightarrow> string \<Rightarrow> jsval" where
  "val_get (JObj ps) k = obj_get ps k"
| "val_get (JArr xs) k = (if k = ''length'' then JNum (int (length xs)) else JUndefined)"
| "val_get (JStr s) k = (if k = ''length'' then JNum (int (length s)) else JUndefined)"
| "val_get v k = JUndefined"

text \<open>\<open>v?.k\<close>\<close>

definition opt_get :: "jsval \<Rightarrow> string \<Rightarrow> jsval" where
  "opt_get v k = (if v = JUndefined \<or> v = JNull then JUndefined else val_get v k)"

text \<open>
  \<open>s.trim()\<close>. A string is the list of its code units, each below 256; the white space
  and line terminators in that range are the tab, line feed, vertical tab, form feed,
  carriage return, space and no-break space.
\<close>

definition is_space :: "char \<Rightarrow> bool" where
  "is_space ch =
     (ch \<in> set [CHR '' '', CHR 0x09, CHR 0x0A, CHR 0x0B, CHR 0x0C, CHR 0x0D, CHR 0xA0])"

definition trim :: "string \<Rightarrow> string" where
  "trim s = rev (dropWhile is_space (rev (dropWhile is_space s)))"

section \<open>Errors, responses and the HTTP transport\<close>

record http_response =
  status :: nat
  resp_data :: jsval

text \<open>
  A thrown \<open>Error\<close>. An error rejected by the HTTP library carries the response when the
  remote answered; \<open>new Error(msg)\<close> and a \<open>TypeError\<close> carry none.
\<close>

record js_error =
  message :: string
  response :: "http_response option"

definition new_Error :: "string \<Rightarrow> js_error" where
  "new_Error msg = \<lparr>message = msg, response = None\<rparr>"

text \<open>Reading a property of \<open>undefined\<close> or \<open>null\<close> throws (the engine's \<open>TypeError\<close>).\<close>

definition read_member :: "jsval \<Rightarrow> string \<Rightarrow> js_error + jsval" where
  "read_member v k =
     (if v = JUndefined \<or> v = JNull
      then Inl (new_Error (''Cannot read properties of '' @ to_string v @ '' (reading ''
                           @ [CHR 0x27] @ k @ [CHR 0x27] @ '')''))
      else Inr (val_get v k))"

definition bind_err :: "'e + 'a \<Rightarrow> ('a \<Rightarrow> 'e + 'b) \<Rightarrow> 'e + 'b" where
  "bind_err m f = (case m of Inl e \<Rightarrow> Inl e | Inr x \<Rightarrow> f x)"

definition try_catch :: "'e + 'a \<Rightarrow> ('e \<Rightarrow> 'e + 'a) \<Rightarrow> 'e + 'a" where
  "try_catch m h = (case m of Inl e \<Rightarrow> h e | Inr x \<Rightarrow> Inr x)"

datatype http_method = GET | POST | PUT | DELETE | PATCH

datatype req_body = NoBody | JsonBody jsval | FormBody "(string \<times> string) list"

record request =
  req_method :: http_method
  url :: string
  params :: jsobj
  body :: req_body
  headers :: "(string \<times> string) list"

text \<open>
  What the HTTP library settles a request with: the response, or an error that carries the
  response when the remote answered outside 2xx and none when the transport failed.
\<close>

datatype axios_outcome = Resolved http_response | Rejected js_error

type_synonym transport = "request \<Rightarrow> axios_outcome"

section \<open>The API client\<close>

record client_config =
  baseUrl :: string
  accessToken :: string
  version :: string
  locationId :: string

record client =
  config :: client_config
  default_headers :: "(string \<times> string) list"

definition GHLApiClient :: "client_config \<Rightarrow> client" where
  "GHLApiClient cfg =
     \<lparr>config = cfg,
      default_headers =
        [(''Authorization'', ''Bearer '' @ accessToken cfg),
         (''Version'', version cfg),
         (''Content-Type'', ''application/json''),
         (''Accept'', ''application/json'')]\<rparr>"

definition handleApiError :: "js_error \<Rightarrow> js_error" where
  "handleApiError err =
     (let st = (case response err of
                  None \<Rightarrow> 500
                | Some r \<Rightarrow> if status r = 0 then 500 else status r);
          msg = js_or (js_or (case response err of
                                None \<Rightarrow> JUndefined
                              | Some r \<Rightarrow> opt_get (resp_data r) ''message'')
                             (JStr (message err)))
                      (JStr ''Unknown error'');
          errorMessage = (case msg of JArr xs \<Rightarrow> JStr (array_join '', '' xs) | _ \<Rightarrow> msg)
      in new_Error (''GHL API Error ('' @ string_of_nat st @ ''): '' @ to_string errorMessage))"

text \<open>
  A request through the client's HTTP instance: the response interceptor passes a response
  on and rejects with \<open>handleApiError\<close> of the error.
\<close>

definition axios_request :: "transport \<Rightarrow> request \<Rightarrow> js_error + http_response" where
  "axios_request tr rq =
     (case tr rq of Resolved r \<Rightarrow> Inr r | Rejected err \<Rightarrow> Inl (handleApiError err))"

record api_error =
  err_message :: string
  statusCode :: nat
  details :: jsval

record api_result =
  success :: bool
  data :: jsval
  error :: "api_error option"

definition wrapResponse :: "jsval \<Rightarrow> api_result" where
  "wrapResponse d = \<lparr>success = True, data = d, error = None\<rparr>"


definition getConfig :: "client \<Rightarrow> client_config" where
  "getConfig c = config c"

subsection \<open>Client methods\<close>

text \<open>
  What a call does besides returning: the client methods it enters and the HTTP requests
  it issues, in order. The writes to the diagnostic stream are left out: nothing reads them.
\<close>

datatype event = ClientCall string | HttpRequest request

type_synonym 'a outcome = "event list \<times> (js_error + 'a)"

text \<open>
  The body of a method's \<open>try\<close>: build the request (which may throw), await it, unwrap the
  response. No request is issued when building throws.
\<close>

definition perform ::
  "transport \<Rightarrow> js_error + request \<Rightarrow> (http_response \<Rightarrow> js_error + 'a) \<Rightarrow> 'a outcome" where
  "perform tr build unwrap =
     (case build of
        Inl err \<Rightarrow> ([], Inl err)
      | Inr rq \<Rightarrow> ([HttpRequest rq], bind_err (axios_request tr rq) unwrap))"

definition catching :: "(js_error \<Rightarrow> js_error + 'a) \<Rightarrow> 'a outcome \<Rightarrow> 'a outcome" where
  "catching h oc = (fst oc, try_catch (snd oc) h)"

definition invoked :: "string \<Rightarrow> 'a outcome \<Rightarrow> 'a outcome" where
  "invoked name oc = (ClientCall name # fst oc, snd oc)"

definition getConversationHeaders :: "client \<Rightarrow> (string \<times> string) list" where
  "getConversationHeaders c =
     [(''Authorization'', ''Bearer '' @ accessToken (config c)),
      (''Version'', ''2021-04-15''),
      (''Content-Type'', ''application/json''),
      (''Accept'', ''application/json'')]"

definition createContact :: "client \<Rightarrow> transport \<Rightarrow> jsobj \<Rightarrow> api_result outcome" where
  "createContact c tr contactData =
     invoked ''createContact''
       (perform tr
          (Inr \<lparr>req_method = POST, url = ''/contacts/'', params = [],
                body = JsonBody (JObj (AList.update ''locationId''
                         (js_or (obj_get contactData ''locationId'') (JStr (locationId (config c))))
                         contactData)),
                headers = []\<rparr>)
          (\<lambda>r. bind_err (read_member (resp_data r) ''contact'') (\<lambda>v. Inr (wrapResponse v))))"

text \<open>
  \<open>if (x && x.trim()) target = x.trim()\<close>: the trimmed string to store, if any. Calling
  \<open>trim\<close> on a truthy value that is not a string throws.
\<close>

definition trimmed :: "string \<Rightarrow> jsval \<Rightarrow> js_error + jsval option" where
  "trimmed expr v =
     (if \<not> truthy v then Inr None
      else case v of
             JStr s \<Rightarrow> Inr (if trim s = [] then None else Some (JStr (trim s)))
           | _ \<Rightarrow> Inl (new_Error (expr @ ''.trim is not a function'')))"

fun set_opt :: "string \<Rightarrow> jsval option \<Rightarrow> jsobj \<Rightarrow> jsobj" where
  "set_opt k None ps = ps"
| "set_opt k (Some v) ps = ps @ [(k, v)]"

definition searchContacts_filters :: "jsval \<Rightarrow> js_error + jsval option" where
  "searchContacts_filters f =
     (if \<not> truthy f then Inr None
      else
        bind_err (trimmed ''searchParams.filters.email'' (val_get f ''email'')) (\<lambda>email.
        bind_err (trimmed ''searchParams.filters.phone'' (val_get f ''phone'')) (\<lambda>phone.
          let tags = (case val_get f ''tags'' of
                        JArr (x # xs) \<Rightarrow> Some (JArr (x # xs))
                      | _ \<Rightarrow> None);
              dateAdded = (case val_get f ''dateAdded'' of
                             JObj ps \<Rightarrow> Some (JObj ps)
                           | JArr xs \<Rightarrow> Some (JArr xs)
                           | _ \<Rightarrow> None);
              filters = set_opt ''dateAdded'' dateAdded
                          (set_opt ''tags'' tags
                             (set_opt ''phone'' phone (set_opt ''email'' email [])))
          in Inr (if filters = [] then None else Some (JObj filters)))))"

definition searchContacts_payload :: "client \<Rightarrow> jsobj \<Rightarrow> js_error + jsobj" where
  "searchContacts_payload c searchParams =
     bind_err (trimmed ''searchParams.query'' (obj_get searchParams ''query'')) (\<lambda>query.
     bind_err (trimmed ''searchParams.startAfterId'' (obj_get searchParams ''startAfterId''))
       (\<lambda>startAfterId.
     bind_err (searchContacts_filters (obj_get searchParams ''filters'')) (\<lambda>filters.
       Inr (set_opt ''filters'' filters
             (set_opt ''startAfter''
                (case obj_get searchParams ''startAfter'' of
                   JNum n \<Rightarrow> if n \<noteq> 0 then Some (JNum n) else None
                 | _ \<Rightarrow> None)
                (set_opt ''startAfterId'' startAfterId
                   (set_opt ''query'' query
                      [(''locationId'',
                          js_or (obj_get searchParams ''locationId'')
                                (JStr (locationId (config c)))),
                       (''pageLimit'', js_or (obj_get searchParams ''limit'') (JNum 25))])))))))"

text \<open>
  \<open>searchContacts\<close> catches what its \<open>try\<close> throws and returns a failure result built
  from the caught error.
\<close>

definition searchContacts :: "client \<Rightarrow> transport \<Rightarrow> jsobj \<Rightarrow> api_result outcome" where
  "searchContacts c tr searchParams =
     invoked ''searchContacts''
       (catching
          (\<lambda>axiosError. Inr
             \<lparr>success = False, data = JUndefined,
              error = Some
                \<lparr>err_message = message (handleApiError axiosError),
                 statusCode = (case response axiosError of
                                 None \<Rightarrow> 500
                               | Some r \<Rightarrow> if status r = 0 then 500 else status r),
                 details = (case response axiosError of
                              None \<Rightarrow> JUndefined
                            | Some r \<Rightarrow> resp_data r)\<rparr>\<rparr>)
          (perform tr
             (bind_err (searchContacts_payload c searchParams) (\<lambda>payload.
                Inr \<lparr>req_method = POST, url = ''/contacts/search'', params = [],
                     body = JsonBody (JObj payload), headers = []\<rparr>))
             (\<lambda>r. Inr (wrapResponse (resp_data r)))))"

definition searchConversations :: "client \<Rightarrow> transport \<Rightarrow> jsobj \<Rightarrow> api_result outcome" where
  "searchConversations c tr searchParams =
     invoked ''searchConversations''
       (perform tr
          (Inr \<lparr>req_method = GET, url = ''/conversations/search'',
                params = AList.update ''locationId''
                           (js_or (obj_get searchParams ''locationId'')
                                  (JStr (locationId (config c))))
                           searchParams,
                body = NoBody, headers = getConversationHeaders c\<rparr>)
          (\<lambda>r. Inr (wrapResponse (resp_data r))))"

text \<open>Copy, in order, the listed properties of \<open>src\<close> that pass the test.\<close>

fun copy_if :: "(jsval \<Rightarrow> bool) \<Rightarrow> jsobj \<Rightarrow> string list \<Rightarrow> jsobj \<Rightarrow> jsobj" where
  "copy_if P src [] acc = acc"
| "copy_if P src (k # ks) acc =
     copy_if P src ks (if P (obj_get src k) then acc @ [(k, obj_get src k)] else acc)"

definition searchOpportunities_params :: "client \<Rightarrow> jsobj \<Rightarrow> js_error + jsobj" where
  "searchOpportunities_params c searchParams =
     bind_err (trimmed ''searchParams.q'' (obj_get searchParams ''q'')) (\<lambda>q.
       Inr (copy_if (\<lambda>v. v \<noteq> JUndefined) searchParams
              [''getTasks'', ''getNotes'', ''getCalendarEvents'']
              (copy_if truthy searchParams
                 [''pipeline_id'', ''pipeline_stage_id'', ''contact_id'', ''status'',
                  ''assigned_to'', ''campaignId'', ''id'', ''order'', ''endDate'',
                  ''startAfter'', ''startAfterId'', ''date'', ''country'', ''page'', ''limit'']
                 (set_opt ''q'' q
                    [(''location_id'',
                        js_or (obj_get searchParams ''location_id'')
                              (JStr (locationId (config c))))]))))"

definition searchOpportunities :: "client \<Rightarrow> transport \<Rightarrow> jsobj \<Rightarrow> api_result outcome" where
  "searchOpportunities c tr searchParams =
     invoked ''searchOpportunities''
       (catching (\<lambda>axiosError. Inl (handleApiError axiosError))
          (perform tr
             (bind_err (searchOpportunities_params c searchParams) (\<lambda>ps.
                Inr \<lparr>req_method = GET, url = ''/opportunities/search'', params = ps,
                     body = NoBody, headers = []\<rparr>))
             (\<lambda>r. Inr (wrapResponse (resp_data r)))))"

definition getPipelines :: "client \<Rightarrow> transport \<Rightarrow> jsval \<Rightarrow> api_result outcome" where
  "getPipelines c tr locId =
     invoked ''getPipelines''
       (catching (\<lambda>err. Inl (handleApiError err))
          (perform tr
             (Inr \<lparr>req_method = GET, url = ''/opportunities/pipelines'',
                   params = [(''locationId'', js_or locId (JStr (locationId (config c))))],
                   body = NoBody, headers = []\<rparr>)
             (\<lambda>r. Inr (wrapResponse (resp_data r)))))"

definition getOpportunity :: "client \<Rightarrow> transport \<Rightarrow> jsval \<Rightarrow> api_result outcome" where
  "getOpportunity c tr opportunityId =
     invoked ''getOpportunity''
       (catching (\<lambda>err. Inl (handleApiError err))
          (perform tr
             (Inr \<lparr>req_method = GET, url = ''/opportunities/'' @ to_string opportunityId,
                   params = [], body = NoBody, headers = []\<rparr>)
             (\<lambda>r. bind_err (read_member (resp_data r) ''opportunity'')
                     (\<lambda>v. Inr (wrapResponse v)))))"

text \<open>\<open>...(v && {k: v})\<close> inside an object literal.\<close>

definition spread_if :: "string \<Rightarrow> jsval \<Rightarrow> jsobj" where
  "spread_if k v = (if truthy v then [(k, v)] else [])"

text \<open>\<open>searchLocations(params = {})\<close>: \<open>None\<close> is the argument left out.\<close>

definition searchLocations :: "client \<Rightarrow> transport \<Rightarrow> jsobj option \<Rightarrow> api_result outcome" where
  "searchLocations c tr arg =
     (let ps = (case arg of None \<Rightarrow> [] | Some p \<Rightarrow> p) in
      invoked ''searchLocations''
        (catching (\<lambda>err. Inl (handleApiError err))
           (perform tr
              (Inr \<lparr>req_method = GET, url = ''/locations/search'',
                    params = [(''skip'', js_or (obj_get ps ''skip'') (JNum 0)),
                              (''limit'', js_or (obj_get ps ''limit'') (JNum 10)),
                              (''order'', js_or (obj_get ps ''order'') (JStr ''asc''))]
                             @ spread_if ''companyId'' (obj_get ps ''companyId'')
                             @ spread_if ''email'' (obj_get ps ''email''),
                    body = NoBody, headers = []\<rparr>)
              (\<lambda>r. Inr (wrapResponse (resp_data r))))))"



definition uploadMediaFile_form :: "jsobj \<Rightarrow> js_error + (string \<times> string) list" where
  "uploadMediaFile_form uploadData =
     bind_err
       (if truthy (obj_get uploadData ''hosted'') \<and> truthy (obj_get uploadData ''fileUrl'')
        then Inr [(''hosted'', ''true''),
                  (''fileUrl'', to_string (obj_get uploadData ''fileUrl''))]
        else if truthy (obj_get uploadData ''file'')
        then Inr [(''hosted'', ''false''), (''file'', to_string (obj_get uploadData ''file''))]
        else Inl (new_Error ''Either file or fileUrl (with hosted=true) must be provided''))
       (\<lambda>form.
          Inr (form
               @ (if truthy (obj_get uploadData ''name'')
                  then [(''name'', to_string (obj_get uploadData ''name''))] else [])
               @ (if truthy (obj_get uploadData ''parentId'')
                  then [(''parentId'', to_string (obj_get uploadData ''parentId''))] else [])))"

definition uploadMediaFile :: "client \<Rightarrow> transport \<Rightarrow> jsobj \<Rightarrow> api_result outcome" where
  "uploadMediaFile c tr uploadData =
     invoked ''uploadMediaFile''
       (catching (\<lambda>err. Inl (handleApiError err))
          (perform tr
             (bind_err (uploadMediaFile_form uploadData) (\<lambda>formData.
                Inr \<lparr>req_method = POST, url = ''/medias/upload-file'', params = [],
                     body = FormBody formData,
                     headers = [(''Content-Type'', ''multipart/form-data'')]\<rparr>))
             (\<lambda>r. Inr (wrapResponse (resp_data r)))))"





section \<open>Tool modules\<close>

text \<open>\<open>response.error?.message || dflt\<close>\<close>

definition failure_text :: "api_result \<Rightarrow> string \<Rightarrow> string" where
  "failure_text res dflt =
     (case error res of
        None \<Rightarrow> dflt
      | Some e \<Rightarrow> if err_message e = [] then dflt else err_message e)"

definition LocationTools_searchLocations :: "client \<Rightarrow> transport \<Rightarrow> jsobj \<Rightarrow> jsval outcome" where
  "LocationTools_searchLocations c tr args =
     catching (\<lambda>err. Inl (new_Error (''Failed to search locations: '' @ message err)))
       (let oc = searchLocations c tr (Some args) in
        (fst oc,
         bind_err (snd oc) (\<lambda>res.
           if \<not> success res \<or> \<not> truthy (data res)
           then Inl (new_Error (''API request failed: ''
                                @ failure_text res ''Unknown API error''))
           else let locations = js_or (val_get (data res) ''locations'') (JArr []) in
                Inr (JObj [(''success'', JBool True),
                           (''locations'', locations),
                           (''message'', JStr (''Found ''
                               @ to_string (val_get locations ''length'')
                               @ '' locations''))]))))"

definition MediaTools_uploadMediaFile :: "client \<Rightarrow> transport \<Rightarrow> jsobj \<Rightarrow> jsval outcome" where
  "MediaTools_uploadMediaFile c tr ps =
     catching (\<lambda>err. Inl (new_Error (''Failed to upload media file: '' @ message err)))
       (if truthy (obj_get ps ''hosted'') \<and> \<not> truthy (obj_get ps ''fileUrl'')
        then ([], Inl (new_Error ''fileUrl is required when hosted=true''))
        else if \<not> truthy (obj_get ps ''hosted'') \<and> \<not> truthy (obj_get ps ''file'')
        then ([], Inl (new_Error ''file is required when hosted=false or not specified''))
        else
          let uploadData =
                [(''altType'', js_or (obj_get ps ''altType'') (JStr ''location'')),
                 (''altId'', js_or (obj_get ps ''altId'') (JStr (locationId (getConfig c))))]
                @ (if obj_get ps ''hosted'' \<noteq> JUndefined
                   then [(''hosted'', obj_get ps ''hosted'')]
                   else [])
                @ spread_if ''fileUrl'' (obj_get ps ''fileUrl'')
                @ spread_if ''file'' (obj_get ps ''file'')
                @ spread_if ''name'' (obj_get ps ''name'')
                @ spread_if ''parentId'' (obj_get ps ''parentId'');
              oc = uploadMediaFile c tr uploadData
          in ((if truthy (obj_get ps ''altId'') then [] else [ClientCall ''getConfig''])
              @ fst oc,
              bind_err (snd oc) (\<lambda>res.
                if \<not> success res \<or> \<not> truthy (data res)
                then Inl (new_Error (''API request failed: ''
                                     @ failure_text res ''Unknown API error''))
                else Inr (JObj [(''success'', JBool True),
                                (''fileId'', val_get (data res) ''fileId''),
                                (''url'', val_get (data res) ''url''),
                                (''message'', JStr (''File uploaded successfully with ID: ''
                                    @ to_string (val_get (data res) ''fileId'')))]))))"

definition OpportunityTools_getPipelines :: "client \<Rightarrow> transport \<Rightarrow> jsval outcome" where
  "OpportunityTools_getPipelines c tr =
     catching (\<lambda>err. Inl (new_Error (''Failed to get pipelines: '' @ message err)))
       (let oc = getPipelines c tr JUndefined in
        (fst oc,
         bind_err (snd oc) (\<lambda>res.
           if \<not> success res \<or> \<not> truthy (data res)
           then Inl (new_Error (''API request failed: ''
                                @ failure_text res ''Unknown API error''))
           else let pipelines = (case val_get (data res) ''pipelines'' of
                                   JArr xs \<Rightarrow> JArr xs
                                 | _ \<Rightarrow> JArr []) in
                Inr (JObj [(''success'', JBool True),
                           (''pipelines'', pipelines),
                           (''message'', JStr (''Retrieved ''
                               @ to_string (val_get pipelines ''length'')
                               @ '' pipelines''))]))))"

definition OpportunityTools_getOpportunity :: "client \<Rightarrow> transport \<Rightarrow> jsval \<Rightarrow> jsval outcome" where
  "OpportunityTools_getOpportunity c tr opportunityId =
     catching (\<lambda>err. Inl (new_Error (''Failed to get opportunity: '' @ message err)))
       (let oc = getOpportunity c tr opportunityId in
        (fst oc,
         bind_err (snd oc) (\<lambda>res.
           if \<not> success res \<or> \<not> truthy (data res)
           then Inl (new_Error (''API request failed: ''
                                @ failure_text res ''Unknown API error''))
           else Inr (JObj [(''success'', JBool True),
                           (''opportunity'', data res),
                           (''message'', JStr ''Opportunity retrieved successfully'')]))))"

text \<open>\<open>ContactTools.createContact\<close> has no \<open>try\<close>: what the client throws passes through.\<close>

definition ContactTools_contactData :: "client \<Rightarrow> jsobj \<Rightarrow> jsobj" where
  "ContactTools_contactData c ps =
     [(''locationId'', JStr (locationId (getConfig c))),
      (''firstName'', obj_get ps ''firstName''),
      (''lastName'', obj_get ps ''lastName''),
      (''email'', obj_get ps ''email''),
      (''phone'', obj_get ps ''phone''),
      (''tags'', obj_get ps ''tags''),
      (''source'', obj_get ps ''source'')]"

definition ContactTools_createContact :: "client \<Rightarrow> transport \<Rightarrow> jsobj \<Rightarrow> jsval outcome" where
  "ContactTools_createContact c tr ps =
     (let oc = createContact c tr (ContactTools_contactData c ps)
      in (ClientCall ''getConfig'' # fst oc,
          bind_err (snd oc) (\<lambda>res.
            if \<not> success res
            then Inl (new_Error (failure_text res ''Failed to create contact''))
            else Inr (data res))))"

subsection \<open>Catalogs and dispatchers\<close>

datatype tool_module =
    ContactTools
  | ConversationTools
  | EmailTools
  | EmailISVTools
  | LocationTools
  | MediaTools
  | OpportunityTools
  | WorkflowTools

text \<open>
  The names of the descriptors each module's catalog returns, in order
  (\<open>getToolDefinitions\<close>; \<open>getTools\<close> in the workflow module).
\<close>

primrec getToolDefinitions :: "tool_module \<Rightarrow> string list" where
  "getToolDefinitions ContactTools =
     [''create_contact'', ''search_contacts'', ''get_contact'', ''update_contact'',
      ''delete_contact'', ''add_contact_tags'', ''remove_contact_tags'',
      ''get_contact_tasks'', ''create_contact_task'', ''get_contact_task'',
      ''update_contact_task'', ''delete_contact_task'', ''update_task_completion'',
      ''get_contact_notes'', ''create_contact_note'', ''get_contact_note'',
      ''update_contact_note'', ''delete_contact_note'', ''upsert_contact'',
      ''get_duplicate_contact'', ''get_contacts_by_business'', ''get_contact_appointments'',
      ''bulk_update_contact_tags'', ''bulk_update_contact_business'',
      ''add_contact_followers'', ''remove_contact_followers'', ''add_contact_to_campaign'',
      ''remove_contact_from_campaign'', ''remove_contact_from_all_campaigns'',
      ''add_contact_to_workflow'', ''remove_contact_from_workflow'']"
| "getToolDefinitions ConversationTools =
     [''send_sms'', ''send_email'', ''search_conversations'', ''get_conversation'',
      ''create_conversation'', ''update_conversation'', ''get_recent_messages'',
      ''delete_conversation'', ''get_email_message'', ''get_message'',
      ''upload_message_attachments'', ''update_message_status'', ''add_inbound_message'',
      ''add_outbound_call'', ''get_message_recording'', ''get_message_transcription'',
      ''download_transcription'', ''cancel_scheduled_message'', ''cancel_scheduled_email'',
      ''live_chat_typing'']"
| "getToolDefinitions EmailTools =
     [''get_email_campaigns'', ''create_email_template'', ''get_email_templates'',
      ''update_email_template'', ''delete_email_template'']"
| "getToolDefinitions EmailISVTools = [''verify_email'']"
| "getToolDefinitions LocationTools =
     [''search_locations'', ''get_location'', ''create_location'', ''update_location'',
      ''delete_location'', ''get_location_tags'', ''create_location_tag'',
      ''get_location_tag'', ''update_location_tag'', ''delete_location_tag'',
      ''search_location_tasks'', ''get_location_custom_fields'',
      ''create_location_custom_field'', ''get_location_custom_field'',
      ''update_location_custom_field'', ''delete_location_custom_field'',
      ''get_location_custom_values'', ''create_location_custom_value'',
      ''get_location_custom_value'', ''update_location_custom_value'',
      ''delete_location_custom_value'', ''get_location_templates'',
      ''delete_location_template'', ''get_timezones'']"
| "getToolDefinitions MediaTools =
     [''get_media_files'', ''upload_media_file'', ''delete_media_file'']"
| "getToolDefinitions OpportunityTools =
     [''search_opportunities'', ''get_pipelines'', ''get_opportunity'',
      ''create_opportunity'', ''update_opportunity_status'', ''delete_opportunity'',
      ''update_opportunity'', ''upsert_opportunity'', ''add_opportunity_followers'',
      ''remove_opportunity_followers'']"
| "getToolDefinitions WorkflowTools = [''ghl_get_workflows'']"

text \<open>
  The \<open>switch\<close> of each dispatcher: every \<open>case\<close> label with the method it calls, in
  order. \<open>map_of\<close> takes the first matching label, as the \<open>switch\<close> does.
\<close>

primrec switch_cases :: "tool_module \<Rightarrow> (string \<times> string) list" where
  "switch_cases ContactTools =
     [(''create_contact'', ''createContact''),
      (''search_contacts'', ''searchContacts''),
      (''get_contact'', ''getContact''),
      (''update_contact'', ''updateContact''),
      (''delete_contact'', ''deleteContact''),
      (''add_contact_tags'', ''addContactTags''),
      (''remove_contact_tags'', ''removeContactTags''),
      (''get_contact_tasks'', ''getContactTasks''),
      (''create_contact_task'', ''createContactTask''),
      (''get_contact_task'', ''getContactTask''),
      (''update_contact_task'', ''updateContactTask''),
      (''delete_contact_task'', ''deleteContactTask''),
      (''update_task_completion'', ''updateTaskCompletion''),
      (''get_contact_notes'', ''getContactNotes''),
      (''create_contact_note'', ''createContactNote''),
      (''get_contact_note'', ''getContactNote''),
      (''update_contact_note'', ''updateContactNote''),
      (''delete_contact_note'', ''deleteContactNote''),
      (''upsert_contact'', ''upsertContact''),
      (''get_duplicate_contact'', ''getDuplicateContact''),
      (''get_contacts_by_business'', ''getContactsByBusiness''),
      (''get_contact_appointments'', ''getContactAppointments''),
      (''bulk_update_contact_tags'', ''bulkUpdateContactTags''),
      (''bulk_update_contact_business'', ''bulkUpdateContactBusiness''),
      (''add_contact_followers'', ''addContactFollowers''),
      (''remove_contact_followers'', ''removeContactFollowers''),
      (''add_contact_to_campaign'', ''addContactToCampaign''),
      (''remove_contact_from_campaign'', ''removeContactFromCampaign''),
      (''remove_contact_from_all_campaigns'', ''removeContactFromAllCampaigns''),
      (''add_contact_to_workflow'', ''addContactToWorkflow''),
      (''remove_contact_from_workflow'', ''removeContactFromWorkflow'')]"
| "switch_cases ConversationTools =
     [(''send_sms'', ''sendSMS''),
      (''send_email'', ''sendEmail''),
      (''search_conversations'', ''searchConversations''),
      (''get_conversation'', ''getConversation''),
      (''create_conversation'', ''createConversation''),
      (''update_conversation'', ''updateConversation''),
      (''get_recent_messages'', ''getRecentMessages''),
      (''delete_conversation'', ''deleteConversation''),
      (''get_email_message'', ''getEmailMessage''),
      (''get_message'', ''getMessage''),
      (''upload_message_attachments'', ''uploadMessageAttachments''),
      (''update_message_status'', ''updateMessageStatus''),
      (''add_inbound_message'', ''addInboundMessage''),
      (''add_outbound_call'', ''addOutboundCall''),
      (''get_message_recording'', ''getMessageRecording''),
      (''get_message_transcription'', ''getMessageTranscription''),
      (''download_transcription'', ''downloadTranscription''),
      (''cancel_scheduled_message'', ''cancelScheduledMessage''),
      (''cancel_scheduled_email'', ''cancelScheduledEmail''),
      (''live_chat_typing'', ''liveChatTyping'')]"
| "switch_cases EmailTools =
     [(''get_email_campaigns'', ''getEmailCampaigns''),
      (''create_email_template'', ''createEmailTemplate''),
      (''get_email_templates'', ''getEmailTemplates''),
      (''update_email_template'', ''updateEmailTemplate''),
      (''delete_email_template'', ''deleteEmailTemplate'')]"
| "switch_cases EmailISVTools = [(''verify_email'', ''verifyEmail'')]"
| "switch_cases LocationTools =
     [(''search_locations'', ''searchLocations''),
      (''get_location'', ''getLocation''),
      (''create_location'', ''createLocation''),
      (''update_location'', ''updateLocation''),
      (''delete_location'', ''deleteLocation''),
      (''get_location_tags'', ''getLocationTags''),
      (''create_location_tag'', ''createLocationTag''),
      (''get_location_tag'', ''getLocationTag''),
      (''update_location_tag'', ''updateLocationTag''),
      (''delete_location_tag'', ''deleteLocationTag''),
      (''search_location_tasks'', ''searchLocationTasks''),
      (''get_location_custom_fields'', ''getLocationCustomFields''),
      (''create_location_custom_field'', ''createLocationCustomField''),
      (''get_location_custom_field'', ''getLocationCustomField''),
      (''update_location_custom_field'', ''updateLocationCustomField''),
      (''delete_location_custom_field'', ''deleteLocationCustomField''),
      (''get_location_custom_values'', ''getLocationCustomValues''),
      (''create_location_custom_value'', ''createLocationCustomValue''),
      (''get_location_custom_value'', ''getLocationCustomValue''),
      (''update_location_custom_value'', ''updateLocationCustomValue''),
      (''delete_location_custom_value'', ''deleteLocationCustomValue''),
      (''get_location_templates'', ''getLocationTemplates''),
      (''delete_location_template'', ''deleteLocationTemplate''),
      (''get_timezones'', ''getTimezones'')]"
| "switch_cases MediaTools =
     [(''get_media_files'', ''getMediaFiles''),
      (''upload_media_file'', ''uploadMediaFile''),
      (''delete_media_file'', ''deleteMediaFile'')]"
| "switch_cases OpportunityTools =
     [(''search_opportunities'', ''searchOpportunities''),
      (''get_pipelines'', ''getPipelines''),
      (''get_opportunity'', ''getOpportunity''),
      (''create_opportunity'', ''createOpportunity''),
      (''update_opportunity_status'', ''updateOpportunityStatus''),
      (''delete_opportunity'', ''deleteOpportunity''),
      (''update_opportunity'', ''updateOpportunity''),
      (''upsert_opportunity'', ''upsertOpportunity''),
      (''add_opportunity_followers'', ''addOpportunityFollowers''),
      (''remove_opportunity_followers'', ''removeOpportunityFollowers'')]"
| "switch_cases WorkflowTools = [(''ghl_get_workflows'', ''getWorkflows'')]"

text \<open>The \<open>default\<close> branch of each \<open>switch\<close>.\<close>

primrec unknown_tool :: "tool_module \<Rightarrow> string \<Rightarrow> js_error" where
  "unknown_tool ContactTools name = new_Error (''Unknown tool: '' @ name)"
| "unknown_tool ConversationTools name = new_Error (''Unknown tool: '' @ name)"
| "unknown_tool EmailTools name = new_Error (''Unknown email tool: '' @ name)"
| "unknown_tool EmailISVTools name = new_Error (''Unknown email ISV tool: '' @ name)"
| "unknown_tool LocationTools name = new_Error (''Unknown location tool: '' @ name)"
| "unknown_tool MediaTools name = new_Error (''Unknown media tool: '' @ name)"
| "unknown_tool OpportunityTools name = new_Error (''Unknown opportunity tool: '' @ name)"
| "unknown_tool WorkflowTools name = new_Error (''Unknown workflow tool: '' @ name)"

text \<open>
  The handler methods. Those the properties below are about are the definitions above;
  every other handler is taken as given (\<open>others\<close>), whatever it does.
\<close>

type_synonym handlers = "tool_module \<Rightarrow> string \<Rightarrow> jsobj \<Rightarrow> jsval outcome"

definition run_handler ::
  "handlers \<Rightarrow> client \<Rightarrow> transport \<Rightarrow> tool_module \<Rightarrow> string \<Rightarrow> jsobj \<Rightarrow> jsval outcome" where
  "run_handler others c tr m h args =
     (if m = ContactTools \<and> h = ''createContact'' then ContactTools_createContact c tr args
      else if m = LocationTools \<and> h = ''searchLocations''
        then LocationTools_searchLocations c tr args
      else if m = MediaTools \<and> h = ''uploadMediaFile''
        then MediaTools_uploadMediaFile c tr args
      else if m = OpportunityTools \<and> h = ''getPipelines''
        then OpportunityTools_getPipelines c tr
      else if m = OpportunityTools \<and> h = ''getOpportunity''
        then OpportunityTools_getOpportunity c tr (obj_get args ''opportunityId'')
      else others m h args)"

definition executeTool ::
  "handlers \<Rightarrow> client \<Rightarrow> transport \<Rightarrow> tool_module \<Rightarrow> string \<Rightarrow> jsobj \<Rightarrow> jsval outcome" where
  "executeTool others c tr m name args =
     (case map_of (switch_cases m) name of
        None \<Rightarrow> ([], Inl (unknown_tool m name))
      | Some h \<Rightarrow> run_handler others c tr m h args)"

section \<open>Properties\<close>

subsection \<open>Auxiliary facts\<close>








subsection \<open>Catalog and dispatch\<close>

lemma switch_cases_labels: "map fst (switch_cases m) = getToolDefinitions m"
  by (cases m) simp_all

lemma switch_default:
  "name \<notin> set (getToolDefinitions m) \<Longrightarrow> map_of (switch_cases m) name = None"
  unfolding switch_cases_labels [symmetric] by (simp add: map_of_eq_None_iff)

lemma switch_handled:
  "name \<in> set (getToolDefinitions m) \<Longrightarrow> \<exists>h. map_of (switch_cases m) name = Some h"
  unfolding switch_cases_labels [symmetric]
  by (metis map_of_eq_None_iff not_Some_eq set_map)

lemma unknown_tool_names: "suffix name (message (unknown_tool m name))"
  by (cases m) (simp_all add: new_Error_def suffix_def)

text \<open>
  C1. In every tool module, each name of the catalog is a \<open>case\<close> of the module's
  dispatcher, which runs that case's handler; and for a name outside the catalog the
  dispatcher throws the module's unknown-tool error, whose message ends with the name,
  with no client method entered and no request issued.
\<close>

theorem executeTool_catalog:
  "(name \<in> set (getToolDefinitions m) \<longrightarrow>
      (\<exists>h. map_of (switch_cases m) name = Some h
           \<and> executeTool others c tr m name args = run_handler others c tr m h args))
   \<and> (name \<notin> set (getToolDefinitions m) \<longrightarrow>
        executeTool others c tr m name args = ([], Inl (unknown_tool m name))
        \<and> suffix name (message (unknown_tool m name)))"
proof (intro conjI impI)
  assume "name \<in> set (getToolDefinitions m)"
  then obtain h where "map_of (switch_cases m) name = Some h"
    using switch_handled by blast
  then show "\<exists>h. map_of (switch_cases m) name = Some h
           \<and> executeTool others c tr m name args = run_handler others c tr m h args"
    by (simp add: executeTool_def)
next
  assume "name \<notin> set (getToolDefinitions m)"
  then show "executeTool others c tr m name args = ([], Inl (unknown_tool m name))"
    by (simp add: executeTool_def switch_default)
next
  show "suffix name (message (unknown_tool m name))" by (rule unknown_tool_names)
qed

text \<open>A catalog name of the location module, and a name the media module does not have.\<close>

theorem executeTool_catalog_witness:
  "''get_location_tag'' \<in> set (getToolDefinitions LocationTools)
   \<and> map_of (switch_cases LocationTools) ''get_location_tag'' = Some ''getLocationTag''
   \<and> ''drop_everything'' \<notin> set (getToolDefinitions MediaTools)
   \<and> executeTool (\<lambda>m h a. ([], Inr JNull))
        (GHLApiClient
          \<lparr>baseUrl = ''https://api'', accessToken = ''t1'',
                    version = ''2021-07-28'', locationId = ''L1''\<rparr>)
        (\<lambda>rq. Rejected (new_Error ''offline'')) MediaTools ''drop_everything'' []
      = ([], Inl (new_Error ''Unknown media tool: drop_everything''))"
  using executeTool_catalog [of "''get_location_tag''" LocationTools
          "\<lambda>m h a. ([], Inr JNull)"
          "GHLApiClient
          \<lparr>baseUrl = ''https://api'', accessToken = ''t1'',
                    version = ''2021-07-28'', locationId = ''L1''\<rparr>"
          "\<lambda>rq. Rejected (new_Error ''offline'')" "[]"]
        executeTool_catalog [of "''drop_everything''" MediaTools
          "\<lambda>m h a. ([], Inr JNull)"
          "GHLApiClient
          \<lparr>baseUrl = ''https://api'', accessToken = ''t1'',
                    version = ''2021-07-28'', locationId = ''L1''\<rparr>"
          "\<lambda>rq. Rejected (new_Error ''offline'')" "[]"]
  by simp

subsection \<open>Central error conversion\<close>

text \<open>
  C2 (as amended). When the remote answers a request of any client method outside 2xx, the
  response interceptor rejects with one error whose message is
  \<open>GHL API Error (<status>): <message>\<close>. The message is the response body's \<open>message\<close>
  field when that is truthy, an array being joined with a comma and a space; otherwise it
  is the HTTP library's error text, or \<open>Unknown error\<close> when that is empty.
\<close>

theorem handleApiError_remote:
  assumes "tr rq = Rejected err" and "response err = Some r" and "status r \<noteq> 0"
  shows "axios_request tr rq =
           Inl (new_Error (''GHL API Error ('' @ string_of_nat (status r) @ ''): ''
             @ (if truthy (opt_get (resp_data r) ''message'')
                then (case opt_get (resp_data r) ''message'' of
                        JArr xs \<Rightarrow> array_join '', '' xs
                      | m \<Rightarrow> to_string m)
                else if message err = [] then ''Unknown error'' else message err)))"
  using assms
  by (cases "opt_get (resp_data r) ''message''")
     (simp_all add: axios_request_def handleApiError_def js_or_def Let_def)

text \<open>A 422 whose body lists two validation messages.\<close>

theorem handleApiError_remote_witness:
  "axios_request
     (\<lambda>rq. Rejected \<lparr>message = ''Request failed with status code 422'',
                      response = Some \<lparr>status = 422,
                        resp_data = JObj [(''message'',
                          JArr [JStr ''email must be an email'',
                                JStr ''phone is too long''])]\<rparr>\<rparr>)
     \<lparr>req_method = GET, url = ''/contacts/c1'', params = [], body = NoBody, headers = []\<rparr>
   = Inl (new_Error ''GHL API Error (422): email must be an email, phone is too long'')"
  using handleApiError_remote
    [of "\<lambda>rq. Rejected \<lparr>message = ''Request failed with status code 422'',
                      response = Some \<lparr>status = 422,
                        resp_data = JObj [(''message'',
                          JArr [JStr ''email must be an email'',
                                JStr ''phone is too long''])]\<rparr>\<rparr>"
        "\<lparr>req_method = GET, url = ''/contacts/c1'', params = [], body = NoBody,
          headers = []\<rparr>"
        "\<lparr>message = ''Request failed with status code 422'',
          response = Some \<lparr>status = 422,
            resp_data = JObj [(''message'',
              JArr [JStr ''email must be an email'', JStr ''phone is too long''])]\<rparr>\<rparr>"
        "\<lparr>status = 422,
          resp_data = JObj [(''message'',
            JArr [JStr ''email must be an email'', JStr ''phone is too long''])]\<rparr>"]
  by (simp add: opt_get_def obj_get_def array_join_def string_of_nat.simps digit_def)

text \<open>
  C2 as stated fails: a 404 with body message \<open>Not found\<close> gives
  \<open>GHL API Error (404): Not found\<close>, not \<open>Platform API Error (404): Not found\<close>; and a 404
  whose body has no \<open>message\<close> gives the HTTP library's text, not a field of the body.
\<close>

theorem handleApiError_remote_counterexample:
  "message (handleApiError
      \<lparr>message = ''Request failed with status code 404'',
       response = Some \<lparr>status = 404,
                         resp_data = JObj [(''message'', JStr ''Not found'')]\<rparr>\<rparr>)
     = ''GHL API Error (404): Not found''
   \<and> message (handleApiError
      \<lparr>message = ''Request failed with status code 404'',
       response = Some \<lparr>status = 404,
                         resp_data = JObj [(''message'', JStr ''Not found'')]\<rparr>\<rparr>)
     \<noteq> ''Platform API Error (404): Not found''
   \<and> message (handleApiError
      \<lparr>message = ''Request failed with status code 404'',
       response = Some \<lparr>status = 404, resp_data = JObj []\<rparr>\<rparr>)
     = ''GHL API Error (404): Request failed with status code 404''"
  by (simp add: handleApiError_def new_Error_def js_or_def opt_get_def obj_get_def
        string_of_nat.simps digit_def)

text \<open>
  C4 (as amended). When the transport fails (the error carries no response), the response
  interceptor rejects with an error of the same form as for a remote failure, with the
  status defaulted to 500: \<open>GHL API Error (500): <text>\<close>, the text being the transport's
  error text, or \<open>Unknown error\<close> when that is empty.
\<close>

theorem handleApiError_transport:
  assumes "tr rq = Rejected err" and "response err = None"
  shows "axios_request tr rq =
           Inl (new_Error (''GHL API Error (500): ''
                  @ (if message err = [] then ''Unknown error'' else message err)))"
  using assms
  by (simp add: axios_request_def handleApiError_def js_or_def string_of_nat.simps digit_def)

text \<open>A timeout.\<close>

theorem handleApiError_transport_witness:
  "axios_request
     (\<lambda>rq. Rejected \<lparr>message = ''timeout of 30000ms exceeded'', response = None\<rparr>)
     \<lparr>req_method = GET, url = ''/locations/search'', params = [], body = NoBody,
       headers = []\<rparr>
   = Inl (new_Error ''GHL API Error (500): timeout of 30000ms exceeded'')"
  using handleApiError_transport
    [of "\<lambda>rq. Rejected \<lparr>message = ''timeout of 30000ms exceeded'', response = None\<rparr>"
        "\<lparr>req_method = GET, url = ''/locations/search'', params = [], body = NoBody,
          headers = []\<rparr>"
        "\<lparr>message = ''timeout of 30000ms exceeded'', response = None\<rparr>"]
  by simp

text \<open>
  C4 as stated fails: the error made from a network failure carries the status 500 in its
  message, and is the very error made from a remote 500 answer with the same text.
\<close>

theorem handleApiError_transport_counterexample:
  "handleApiError \<lparr>message = ''Network Error'', response = None\<rparr>
     = new_Error ''GHL API Error (500): Network Error''
   \<and> handleApiError \<lparr>message = ''Network Error'', response = None\<rparr>
     = handleApiError \<lparr>message = ''Request failed with status code 500'',
         response = Some \<lparr>status = 500,
                           resp_data = JObj [(''message'', JStr ''Network Error'')]\<rparr>\<rparr>"
  by (simp add: handleApiError_def new_Error_def js_or_def opt_get_def obj_get_def
        string_of_nat.simps digit_def)

subsection \<open>Search methods on failure\<close>

lemma searchContacts_on_failure:
  assumes "\<And>rq. tr rq = Rejected err"
  shows "\<exists>e. snd (searchContacts c tr p) =
               Inr \<lparr>success = False, data = JUndefined, error = Some e\<rparr>"
  using assms
  by (cases "searchContacts_payload c p")
     (simp_all add: searchContacts_def invoked_def catching_def perform_def bind_err_def
        try_catch_def axios_request_def)

lemma searchOpportunities_on_failure:
  assumes "\<And>rq. tr rq = Rejected err"
  shows "\<exists>thrown. snd (searchOpportunities c tr p) = Inl thrown"
  using assms
  by (cases "searchOpportunities_params c p")
     (simp_all add: searchOpportunities_def invoked_def catching_def perform_def bind_err_def
          try_catch_def axios_request_def)

text \<open>
  C3 (as amended). When every request fails at the HTTP layer, \<open>searchContacts\<close> catches
  the failure inside the method and returns a result
  \<open>{success: false, error: {message, statusCode, details}}\<close> rather than throwing;
  \<open>searchOpportunities\<close>, \<open>searchConversations\<close> and \<open>searchLocations\<close> throw to the caller.
\<close>

theorem search_methods_on_failure:
  assumes "\<And>rq. tr rq = Rejected err"
  shows "(\<exists>e. snd (searchContacts c tr p) =
                Inr \<lparr>success = False, data = JUndefined, error = Some e\<rparr>)
         \<and> (\<exists>thrown. snd (searchOpportunities c tr p) = Inl thrown)
         \<and> snd (searchConversations c tr p) = Inl (handleApiError err)
         \<and> (\<exists>thrown. snd (searchLocations c tr a) = Inl thrown)"
proof (intro conjI)
  show "snd (searchConversations c tr p) = Inl (handleApiError err)"
    using assms
    by (simp add: searchConversations_def invoked_def perform_def bind_err_def
          axios_request_def)
  show "\<exists>thrown. snd (searchLocations c tr a) = Inl thrown"
    using assms
    by (simp add: searchLocations_def invoked_def catching_def perform_def bind_err_def
          try_catch_def axios_request_def Let_def)
qed (rule searchContacts_on_failure searchOpportunities_on_failure, rule assms)+

text \<open>A contact search and a location search while the remote answers 404.\<close>

theorem search_methods_on_failure_witness:
  "map_sum message success
     (snd (searchContacts (GHLApiClient
          \<lparr>baseUrl = ''https://api'', accessToken = ''t1'',
                    version = ''2021-07-28'', locationId = ''L1''\<rparr>) (\<lambda>rq. Rejected
       \<lparr>message = ''Request failed with status code 404'',
        response = Some \<lparr>status = 404,
          resp_data = JObj [(''message'', JStr ''Not found'')]\<rparr>\<rparr>)
             [(''query'', JStr ''bob'')])) = Inr False
   \<and> isl (snd (searchLocations (GHLApiClient
          \<lparr>baseUrl = ''https://api'', accessToken = ''t1'',
                    version = ''2021-07-28'', locationId = ''L1''\<rparr>) (\<lambda>rq. Rejected
       \<lparr>message = ''Request failed with status code 404'',
        response = Some \<lparr>status = 404,
          resp_data = JObj [(''message'', JStr ''Not found'')]\<rparr>\<rparr>) None))"
  using search_methods_on_failure
    [of "\<lambda>rq. Rejected
       \<lparr>message = ''Request failed with status code 404'',
        response = Some \<lparr>status = 404,
          resp_data = JObj [(''message'', JStr ''Not found'')]\<rparr>\<rparr>"
        "\<lparr>message = ''Request failed with status code 404'',
        response = Some \<lparr>status = 404,
          resp_data = JObj [(''message'', JStr ''Not found'')]\<rparr>\<rparr>"
        "GHLApiClient
          \<lparr>baseUrl = ''https://api'', accessToken = ''t1'',
                    version = ''2021-07-28'', locationId = ''L1''\<rparr>"
        "[(''query'', JStr ''bob'')]" None]
  by auto

text \<open>
  C3 as stated fails: on a remote 404 \<open>searchLocations\<close>, \<open>searchOpportunities\<close> and
  \<open>searchConversations\<close> throw.
\<close>

theorem search_methods_on_failure_counterexample:
  "isl (snd (searchLocations (GHLApiClient
          \<lparr>baseUrl = ''https://api'', accessToken = ''t1'',
                    version = ''2021-07-28'', locationId = ''L1''\<rparr>) (\<lambda>rq. Rejected
       \<lparr>message = ''Request failed with status code 404'',
        response = Some \<lparr>status = 404,
          resp_data = JObj [(''message'', JStr ''Not found'')]\<rparr>\<rparr>) None))
   \<and> isl (snd (searchOpportunities (GHLApiClient
          \<lparr>baseUrl = ''https://api'', accessToken = ''t1'',
                    version = ''2021-07-28'', locationId = ''L1''\<rparr>) (\<lambda>rq. Rejected
       \<lparr>message = ''Request failed with status code 404'',
        response = Some \<lparr>status = 404,
          resp_data = JObj [(''message'', JStr ''Not found'')]\<rparr>\<rparr>) []))
   \<and> isl (snd (searchConversations (GHLApiClient
          \<lparr>baseUrl = ''https://api'', accessToken = ''t1'',
                    version = ''2021-07-28'', locationId = ''L1''\<rparr>) (\<lambda>rq. Rejected
       \<lparr>message = ''Request failed with status code 404'',
        response = Some \<lparr>status = 404,
          resp_data = JObj [(''message'', JStr ''Not found'')]\<rparr>\<rparr>) []))"
  by (simp add: searchLocations_def searchOpportunities_def searchConversations_def
        searchOpportunities_params_def trimmed_def invoked_def catching_def perform_def
        bind_err_def try_catch_def axios_request_def obj_get_def Let_def)

subsection \<open>Tool handlers\<close>

text \<open>
  C5. When the arguments give neither a \<open>file\<close> nor both \<open>hosted\<close> and \<open>fileUrl\<close>,
  \<open>upload_media_file\<close> throws an error that says which is missing, with no client method
  entered and no request issued.
\<close>

theorem upload_media_file_validation:
  assumes "\<not> truthy (obj_get args ''file'')"
    and "\<not> (truthy (obj_get args ''hosted'') \<and> truthy (obj_get args ''fileUrl''))"
  shows "executeTool others c tr MediaTools ''upload_media_file'' args =
           ([], Inl (new_Error (''Failed to upload media file: ''
              @ (if truthy (obj_get args ''hosted'')
                 then ''fileUrl is required when hosted=true''
                 else ''file is required when hosted=false or not specified''))))"
  using assms
  by (simp add: executeTool_def run_handler_def MediaTools_uploadMediaFile_def
        catching_def try_catch_def new_Error_def)

text \<open>Only \<open>hosted\<close> given; and only a \<open>name\<close> given.\<close>

theorem upload_media_file_validation_witness:
  "executeTool (\<lambda>m h a. ([], Inr JNull)) (GHLApiClient
          \<lparr>baseUrl = ''https://api'', accessToken = ''t1'',
                    version = ''2021-07-28'', locationId = ''L1''\<rparr>)
     (\<lambda>rq. Resolved \<lparr>status = 200, resp_data = JObj []\<rparr>)
     MediaTools ''upload_media_file'' [(''hosted'', JBool True)]
   = ([], Inl (new_Error
        ''Failed to upload media file: fileUrl is required when hosted=true''))
   \<and> executeTool (\<lambda>m h a. ([], Inr JNull)) (GHLApiClient
          \<lparr>baseUrl = ''https://api'', accessToken = ''t1'',
                    version = ''2021-07-28'', locationId = ''L1''\<rparr>)
     (\<lambda>rq. Resolved \<lparr>status = 200, resp_data = JObj []\<rparr>)
     MediaTools ''upload_media_file'' [(''name'', JStr ''logo.png'')]
   = ([], Inl (new_Error
        ''Failed to upload media file: file is required when hosted=false or not specified''))"
  using upload_media_file_validation
    [of "[(''hosted'', JBool True)]" "\<lambda>m h a. ([], Inr JNull)" "GHLApiClient
          \<lparr>baseUrl = ''https://api'', accessToken = ''t1'',
                    version = ''2021-07-28'', locationId = ''L1''\<rparr>"
        "\<lambda>rq. Resolved \<lparr>status = 200, resp_data = JObj []\<rparr>"]
    upload_media_file_validation
    [of "[(''name'', JStr ''logo.png'')]" "\<lambda>m h a. ([], Inr JNull)" "GHLApiClient
          \<lparr>baseUrl = ''https://api'', accessToken = ''t1'',
                    version = ''2021-07-28'', locationId = ''L1''\<rparr>"
        "\<lambda>rq. Resolved \<lparr>status = 200, resp_data = JObj []\<rparr>"]
  by (simp add: obj_get_def)

text \<open>
  C6. When the arguments of \<open>search_locations\<close> have no \<open>limit\<close>, \<open>skip\<close> or \<open>order\<close>, the
  tool issues one request, \<open>GET /locations/search\<close>, whose \<open>skip\<close>, \<open>limit\<close> and \<open>order\<close>
  parameters are exactly 0, 10 and \<open>asc\<close> (followed by \<open>companyId\<close> and \<open>email\<close> when the
  arguments give them).
\<close>

theorem search_locations_defaults:
  assumes "map_of args ''limit'' = None" and "map_of args ''skip'' = None"
    and "map_of args ''order'' = None"
  shows "\<exists>q. fst (executeTool others c tr LocationTools ''search_locations'' args) =
               [ClientCall ''searchLocations'',
                HttpRequest \<lparr>req_method = GET, url = ''/locations/search'', params = q,
                             body = NoBody, headers = []\<rparr>]
             \<and> obj_get q ''limit'' = JNum 10
             \<and> obj_get q ''skip'' = JNum 0
             \<and> obj_get q ''order'' = JStr ''asc''
             \<and> q = [(''skip'', JNum 0), (''limit'', JNum 10), (''order'', JStr ''asc'')]
                     @ spread_if ''companyId'' (obj_get args ''companyId'')
                     @ spread_if ''email'' (obj_get args ''email'')"
  using assms
  by (simp add: executeTool_def run_handler_def LocationTools_searchLocations_def
        searchLocations_def catching_def invoked_def perform_def obj_get_def js_or_def Let_def)

text \<open>No arguments at all.\<close>

theorem search_locations_defaults_witness:
  "fst (executeTool (\<lambda>m h a. ([], Inr JNull))
          (GHLApiClient
          \<lparr>baseUrl = ''https://api'', accessToken = ''t1'',
                    version = ''2021-07-28'', locationId = ''L1''\<rparr>)
          (\<lambda>rq. Resolved \<lparr>status = 200, resp_data = JObj [(''locations'', JArr [])]\<rparr>)
          LocationTools ''search_locations'' [])
   = [ClientCall ''searchLocations'',
      HttpRequest \<lparr>req_method = GET, url = ''/locations/search'',
        params = [(''skip'', JNum 0), (''limit'', JNum 10), (''order'', JStr ''asc'')],
        body = NoBody, headers = []\<rparr>]"
  using search_locations_defaults
    [of "[]" "\<lambda>m h a. ([], Inr JNull)"
        "GHLApiClient
          \<lparr>baseUrl = ''https://api'', accessToken = ''t1'',
                    version = ''2021-07-28'', locationId = ''L1''\<rparr>"
        "\<lambda>rq. Resolved \<lparr>status = 200, resp_data = JObj [(''locations'', JArr [])]\<rparr>"]
  by (auto simp add: obj_get_def spread_if_def)

text \<open>
  C7. When the remote answers the request of \<open>getOpportunity\<close> with 404,
  \<open>executeTool('get_opportunity', {opportunityId: 'x'})\<close> throws an error whose message is
  \<open>Failed to get opportunity: \<close> followed by the client's error, which ends with the
  message the central handler made from the 404, itself starting with
  \<open>GHL API Error (404): \<close>.
\<close>

theorem get_opportunity_404:
  assumes "tr \<lparr>req_method = GET, url = ''/opportunities/x'', params = [], body = NoBody,
               headers = []\<rparr> = Rejected err"
    and "response err = Some r" and "status r = 404"
  shows "snd (executeTool others c tr OpportunityTools ''get_opportunity''
                [(''opportunityId'', JStr ''x'')])
           = Inl (new_Error (''Failed to get opportunity: GHL API Error (500): ''
                    @ message (handleApiError err)))
         \<and> prefix ''GHL API Error (404): '' (message (handleApiError err))"
  using assms
  by (simp add: executeTool_def run_handler_def OpportunityTools_getOpportunity_def
        getOpportunity_def catching_def invoked_def perform_def obj_get_def
        axios_request_def bind_err_def try_catch_def handleApiError_def new_Error_def
        js_or_def Let_def string_of_nat.simps digit_def)

text \<open>A 404 whose body says \<open>Not found\<close>.\<close>

theorem get_opportunity_404_witness:
  "snd (executeTool (\<lambda>m h a. ([], Inr JNull)) (GHLApiClient
          \<lparr>baseUrl = ''https://api'', accessToken = ''t1'',
                    version = ''2021-07-28'', locationId = ''L1''\<rparr>)
          (\<lambda>rq. Rejected
       \<lparr>message = ''Request failed with status code 404'',
        response = Some \<lparr>status = 404,
          resp_data = JObj [(''message'', JStr ''Not found'')]\<rparr>\<rparr>)
          OpportunityTools ''get_opportunity'' [(''opportunityId'', JStr ''x'')])
   = Inl (new_Error
       ''Failed to get opportunity: GHL API Error (500): GHL API Error (404): Not found'')"
  using get_opportunity_404
    [of "\<lambda>rq. Rejected
       \<lparr>message = ''Request failed with status code 404'',
        response = Some \<lparr>status = 404,
          resp_data = JObj [(''message'', JStr ''Not found'')]\<rparr>\<rparr>"
        "\<lparr>message = ''Request failed with status code 404'',
        response = Some \<lparr>status = 404,
          resp_data = JObj [(''message'', JStr ''Not found'')]\<rparr>\<rparr>"
        "\<lparr>status = 404, resp_data = JObj [(''message'', JStr ''Not found'')]\<rparr>"
        "\<lambda>m h a. ([], Inr JNull)" "GHLApiClient
          \<lparr>baseUrl = ''https://api'', accessToken = ''t1'',
                    version = ''2021-07-28'', locationId = ''L1''\<rparr>"]
  by (simp add: handleApiError_def new_Error_def js_or_def opt_get_def obj_get_def
        string_of_nat.simps digit_def)

subsection \<open>The default location\<close>






subsection \<open>The configuration\<close>



subsection \<open>Results of the throwing methods\<close>







end
